theory Spec2Isabelle
  imports Complex_Main
begin

section \<open>Python values, exceptions and arrays\<close>

text \<open>
  The module \<^verbatim>\<open>snomtools/evaluation/driftcorrection.py\<close> is Python 2 code (the package
  uses print statements, and this file has no \<^verbatim>\<open>from __future__ import division\<close>).
  An exception is a value of \<open>error\<close>; a function that may raise returns \<open>error + 'a\<close>.
  Only the exceptions the code can raise are listed: the code defines no exception class of
  its own.
\<close>

datatype error =
    TypeError
  | IndexError
  | NameError
  | AttributeError
  | SyntaxError
  | AssertionError
  | CvError

datatype pyval = PyNone | PyInt int | PyStr string

definition bindE :: "error + 'a \<Rightarrow> ('a \<Rightarrow> error + 'b) \<Rightarrow> error + 'b" where
  "bindE m f = (case m of Inl e \<Rightarrow> Inl e | Inr v \<Rightarrow> f v)"

text \<open>
  A two-dimensional numpy array is the list of its rows; its first axis is the row index.
  A three-dimensional array keeps its shape beside its cells, as numpy does (an axis may
  have length \<open>0\<close>).
\<close>

type_synonym 'a array2 = "'a list list"

record 'a array3 =
  shape :: "nat \<times> nat \<times> nat"
  cell :: "nat \<Rightarrow> nat \<Rightarrow> nat \<Rightarrow> 'a"

definition rect :: "nat \<Rightarrow> nat \<Rightarrow> 'a array2 \<Rightarrow> bool" where
  "rect r c a = (length a = r \<and> list_all (\<lambda>row. length row = c) a)"

text \<open>Python's index normalisation on an axis of \<open>n\<close> entries: \<open>-n \<le> i < n\<close>, else IndexError.\<close>

definition py_index :: "nat \<Rightarrow> int \<Rightarrow> error + nat" where
  "py_index n i =
     (if 0 \<le> i \<and> i < int n then Inr (nat i)
      else if - int n \<le> i \<and> i < 0 then Inr (nat (int n + i))
      else Inl IndexError)"

text \<open>\<^verbatim>\<open>results[i, j]\<close> on a two-dimensional array.\<close>

definition getitem2 :: "'a array2 \<Rightarrow> int \<Rightarrow> int \<Rightarrow> error + 'a" where
  "getitem2 a i j =
     bindE (py_index (length a) i) (\<lambda>r.
     bindE (py_index (length (a ! r)) j) (\<lambda>c.
     Inr (a ! r ! c)))"

text \<open>\<^verbatim>\<open>data.shape[k]\<close>: a tuple of three entries indexed by a Python value.\<close>

definition shape_getitem :: "nat \<times> nat \<times> nat \<Rightarrow> pyval \<Rightarrow> error + nat" where
  "shape_getitem s k =
     (case k of
        PyInt i \<Rightarrow>
          (case s of (n0, n1, n2) \<Rightarrow> bindE (py_index 3 i) (\<lambda>p. Inr ([n0, n1, n2] ! p)))
      | _ \<Rightarrow> Inl TypeError)"

text \<open>\<^verbatim>\<open>list.insert(k, v)\<close>: the position is clamped to the list, a negative one counts from the end.\<close>

definition list_insert :: "int \<Rightarrow> 'a \<Rightarrow> 'a list \<Rightarrow> 'a list" where
  "list_insert k v xs =
     (let n = int (length xs);
          p = (if k < 0 then max 0 (k + n) else min k n)
      in take (nat p) xs @ v # drop (nat p) xs)"

text \<open>An entry of an index tuple: the full slice \<^verbatim>\<open>np.s_[:]\<close> or an integer.\<close>

datatype index = Full | At int

text \<open>
  \<^verbatim>\<open>data.data[slice_]\<close> for an index tuple with one integer and two full slices: the
  two-dimensional array left when that axis is fixed. Any other tuple on a three-dimensional
  array is not built by this module and is answered with IndexError.
\<close>

definition getitem3 :: "'a array3 \<Rightarrow> index list \<Rightarrow> error + 'a array2" where
  "getitem3 d ix =
     (case shape d of (n0, n1, n2) \<Rightarrow>
       (case ix of
          [At i, Full, Full] \<Rightarrow>
            bindE (py_index n0 i) (\<lambda>p.
              Inr (map (\<lambda>j. map (\<lambda>k. cell d p j k) [0..<n2]) [0..<n1]))
        | [Full, At i, Full] \<Rightarrow>
            bindE (py_index n1 i) (\<lambda>p.
              Inr (map (\<lambda>j. map (\<lambda>k. cell d j p k) [0..<n2]) [0..<n0]))
        | [Full, Full, At i] \<Rightarrow>
            bindE (py_index n2 i) (\<lambda>p.
              Inr (map (\<lambda>j. map (\<lambda>k. cell d j k p) [0..<n1]) [0..<n0]))
        | _ \<Rightarrow> Inl IndexError))"

section \<open>The external primitives\<close>

text \<open>
  The module calls Python's \<^verbatim>\<open>eval\<close>, numpy and OpenCV. They are not code of the
  repository, so the functions of the module take them as a parameter \<open>env\<close>:
  \<^item> \<open>py_eval\<close>: \<^verbatim>\<open>eval(method)\<close> in the module's namespace: the integer the matching
    primitive receives, or the exception raised (a value that is no integer is refused when
    the primitive converts its argument, before the function looks at it again);
  \<^item> \<open>float32\<close>: the conversion \<^verbatim>\<open>np.float32\<close> of one entry;
  \<^item> \<open>matchTemplate\<close>: \<^verbatim>\<open>cv.matchTemplate\<close>, which returns the score surface or raises;
  \<^item> \<open>np_log\<close>: \<^verbatim>\<open>np.log\<close> on a score (numpy signals a non-positive argument with a
    warning and returns \<open>nan\<close> or \<open>-inf\<close>: it never raises);
  \<^item> \<open>pyfloat\<close>: the promotion of a Python integer in arithmetic with a score.
  The arithmetic of the scores is that of the type \<open>'a\<close>: only the operations are assumed,
  no law about them.
\<close>

record ('b, 'a) env =
  py_eval :: "string \<Rightarrow> error + int"
  float32 :: "'b \<Rightarrow> 'a"
  matchTemplate :: "'a array2 \<Rightarrow> 'a array2 \<Rightarrow> int \<Rightarrow> error + 'a array2"
  np_log :: "'a \<Rightarrow> 'a"
  pyfloat :: "int \<Rightarrow> 'a"

text \<open>The values of OpenCV's \<^verbatim>\<open>TemplateMatchModes\<close>.\<close>

definition TM_SQDIFF :: int where "TM_SQDIFF = 0"
definition TM_SQDIFF_NORMED :: int where "TM_SQDIFF_NORMED = 1"
definition TM_CCORR :: int where "TM_CCORR = 2"
definition TM_CCORR_NORMED :: int where "TM_CCORR_NORMED = 3"
definition TM_CCOEFF :: int where "TM_CCOEFF = 4"
definition TM_CCOEFF_NORMED :: int where "TM_CCOEFF_NORMED = 5"

text \<open>
  \<^verbatim>\<open>cv.minMaxLoc\<close>: the least and the greatest entry of a surface and where they are. A
  location is OpenCV's point \<open>(x, y)\<close>: \<open>x\<close> is the column and \<open>y\<close> the row. The surface is
  scanned row by row and the first extremum met is kept; on an empty surface OpenCV reports
  the values \<open>0\<close> and the locations \<open>(-1, -1)\<close>.
\<close>

definition entries :: "'a array2 \<Rightarrow> ('a \<times> (int \<times> int)) list" where
  "entries a =
     concat (map (\<lambda>(r, row). map (\<lambda>(c, v). (v, (int c, int r))) (enumerate 0 row))
                 (enumerate 0 a))"

fun scan_min :: "'a::linorder \<times> (int \<times> int) \<Rightarrow> ('a \<times> (int \<times> int)) list \<Rightarrow> 'a \<times> (int \<times> int)" where
  "scan_min best [] = best"
| "scan_min best (e # es) = scan_min (if fst e < fst best then e else best) es"

fun scan_max :: "'a::linorder \<times> (int \<times> int) \<Rightarrow> ('a \<times> (int \<times> int)) list \<Rightarrow> 'a \<times> (int \<times> int)" where
  "scan_max best [] = best"
| "scan_max best (e # es) = scan_max (if fst best < fst e then e else best) es"

definition minMaxLoc :: "('a::{linorder,zero}) array2 \<Rightarrow> 'a \<times> 'a \<times> (int \<times> int) \<times> (int \<times> int)" where
  "minMaxLoc a =
     (case entries a of
        [] \<Rightarrow> (0, 0, (-1, -1), (-1, -1))
      | e # es \<Rightarrow>
          (let mn = scan_min e es; mx = scan_max e es
           in (fst mn, fst mx, snd mn, snd mx)))"

section \<open>The class Drift\<close>

text \<open>
  A displacement is the pair of integers OpenCV reports, or the pair of scores
  \<^verbatim>\<open>subpixel_peak\<close> computes: the Python function returns either.
\<close>

datatype 'a displacement = Pixel "int \<times> int" | Subpixel "'a \<times> 'a"

text \<open>
  \<^verbatim>\<open>Drift.subpixel_peak(max_var, results)\<close>, lines 91 to 105. The index expressions are
  evaluated as numpy evaluates them: \<open>x - 1 = -1\<close> is the last row, \<open>x + 1\<close> beyond the last
  row raises IndexError. The arithmetic never raises.
\<close>

definition subpixel_peak ::
  "('b, 'a::{plus,minus,times,inverse}) env \<Rightarrow> int \<times> int \<Rightarrow> 'a array2 \<Rightarrow> error + ('a \<times> 'a)" where
  "subpixel_peak env max_var results =
     (let x = fst max_var; y = snd max_var; ln = np_log env; fl = pyfloat env in
      bindE (getitem2 results (x - 1) y) (\<lambda>xm.
      bindE (getitem2 results (x + 1) y) (\<lambda>xp.
      bindE (getitem2 results x y) (\<lambda>c.
      bindE (getitem2 results x (y - 1)) (\<lambda>ym.
      bindE (getitem2 results x (y + 1)) (\<lambda>yp.
      Inr (fl x + (ln xm - ln xp) / (fl 2 * ln xm + fl 2 * ln xp - fl 4 * ln c),
           fl y + (ln ym - ln yp) / (fl 2 * ln ym - fl 4 * ln c + fl 2 * ln yp))))))))"

text \<open>
  \<^verbatim>\<open>Drift.template_matching(array, template, method, subpixel)\<close>, lines 63 to 88. The
  location \<^verbatim>\<open>min_loc\<close> or \<^verbatim>\<open>max_loc\<close> goes to \<^verbatim>\<open>subpixel_peak\<close> as it comes from
  \<^verbatim>\<open>cv.minMaxLoc\<close>. Line 72 binds \<^verbatim>\<open>w\<close> and \<^verbatim>\<open>h\<close>, which are not used.
\<close>

definition template_matching ::
  "('b, 'a::{linorder,zero,plus,minus,times,inverse}) env \<Rightarrow> 'b array2 \<Rightarrow> 'b array2 \<Rightarrow> string \<Rightarrow> bool
     \<Rightarrow> error + 'a displacement" where
  "template_matching env array template method subpixel =
     bindE (py_eval env method) (\<lambda>m.
       let array' = map (map (float32 env)) array;
           template' = map (map (float32 env)) template
       in bindE (matchTemplate env array' template' m) (\<lambda>res.
            case minMaxLoc res of (min_val, max_val, min_loc, max_loc) \<Rightarrow>
              if m \<in> set [TM_SQDIFF, TM_SQDIFF_NORMED] then
                (if subpixel then bindE (subpixel_peak env min_loc res) (\<lambda>p. Inr (Subpixel p))
                 else Inr (Pixel min_loc))
              else
                (if subpixel then bindE (subpixel_peak env max_loc res) (\<lambda>p. Inr (Subpixel p))
                 else Inr (Pixel max_loc))))"

text \<open>
  \<^verbatim>\<open>Drift.template_matching_stack(data, template, stackAxisID, method, subpixel)\<close>, lines
  52 to 60. The loop appends one displacement per index; the first exception leaves it.
\<close>

fun stack_loop :: "(nat \<Rightarrow> error + 'd) \<Rightarrow> nat list \<Rightarrow> 'd list \<Rightarrow> error + 'd list" where
  "stack_loop body [] driftlist = Inr driftlist"
| "stack_loop body (i # is) driftlist =
     bindE (body i) (\<lambda>d. stack_loop body is (driftlist @ [d]))"

definition stack_slice :: "'b array3 \<Rightarrow> pyval \<Rightarrow> nat \<Rightarrow> error + 'b array2" where
  "stack_slice d stackAxisID i =
     (case stackAxisID of
        PyInt k \<Rightarrow> getitem3 d (list_insert k (At (int i)) [Full, Full])
      | _ \<Rightarrow> Inl TypeError)"

definition template_matching_stack ::
  "('b, 'a::{linorder,zero,plus,minus,times,inverse}) env \<Rightarrow> 'b array3 \<Rightarrow> 'b array2 \<Rightarrow> pyval
     \<Rightarrow> string \<Rightarrow> bool \<Rightarrow> error + 'a displacement list" where
  "template_matching_stack env d template stackAxisID method subpixel =
     bindE (shape_getitem (shape d) stackAxisID) (\<lambda>n.
       stack_loop
         (\<lambda>i. bindE (stack_slice d stackAxisID i) (\<lambda>sl.
                template_matching env sl template method subpixel))
         [0..<n] [])"

text \<open>
  The classes \<^verbatim>\<open>DataSet\<close> and \<^verbatim>\<open>ROI\<close> of \<^verbatim>\<open>snomtools.data.datasets\<close> are used
  through their methods only; the functions below take them as the parameter \<open>ops\<close>, over
  a type \<open>'ds\<close> of dataset objects:
  \<^item> \<open>truth\<close>: the truth value of the object in \<^verbatim>\<open>if data:\<close>;
  \<^item> \<open>is_DataSet\<close>, \<open>is_ROI\<close>: the \<^verbatim>\<open>isinstance\<close> tests;
  \<^item> \<open>get_axis_index\<close>, \<open>project_nd\<close>, \<open>ROI\<close>: the methods and the constructor, which may
    raise; \<open>ds_shape\<close>: the attribute \<^verbatim>\<open>shape\<close>;
  \<^item> \<open>get_datafield3\<close>, \<open>get_datafield2\<close>: \<^verbatim>\<open>get_datafield\<close> on a dataset projected on
    three axes and on two.
  A Python dictionary with integer keys is a map.
\<close>

record ('ds, 'b) dataset_ops =
  truth :: "'ds \<Rightarrow> bool"
  is_DataSet :: "'ds \<Rightarrow> bool"
  is_ROI :: "'ds \<Rightarrow> bool"
  get_axis_index :: "'ds \<Rightarrow> pyval \<Rightarrow> error + int"
  ds_shape :: "'ds \<Rightarrow> nat list"
  project_nd :: "'ds \<Rightarrow> int list \<Rightarrow> error + 'ds"
  get_datafield3 :: "'ds \<Rightarrow> int \<Rightarrow> error + 'b array3"
  get_datafield2 :: "'ds \<Rightarrow> int \<Rightarrow> error + 'b array2"
  ROI :: "'ds \<Rightarrow> (int \<rightharpoonup> int \<times> int) \<Rightarrow> bool \<Rightarrow> error + 'ds"

text \<open>\<^verbatim>\<open>data.shape[k]\<close> on a dataset: a tuple indexed by an integer.\<close>

definition tuple_getitem :: "nat list \<Rightarrow> int \<Rightarrow> error + nat" where
  "tuple_getitem s k = bindE (py_index (length s) k) (\<lambda>p. Inr (s ! p))"

text \<open>\<^verbatim>\<open>Drift.extract_3Ddata\<close>, lines 108 to 112.\<close>

definition extract_3Ddata :: "('ds, 'b) dataset_ops \<Rightarrow> 'ds \<Rightarrow> int \<Rightarrow> int \<Rightarrow> int \<Rightarrow> error + 'ds" where
  "extract_3Ddata ops d stackAxisID xAxisID yAxisID =
     (if \<not> is_DataSet ops d then Inl AssertionError
      else project_nd ops d [stackAxisID, xAxisID, yAxisID])"

text \<open>\<^verbatim>\<open>Drift.extract_templatedata\<close>, lines 115 to 122.\<close>

definition extract_templatedata :: "('ds, 'b) dataset_ops \<Rightarrow> 'ds \<Rightarrow> int \<Rightarrow> int \<Rightarrow> error + 'b array2" where
  "extract_templatedata ops d xAxisID yAxisID =
     (if \<not> (is_DataSet ops d \<or> is_ROI ops d) then Inl AssertionError
      else
        bindE (get_axis_index ops d (PyInt xAxisID)) (\<lambda>xA.
        bindE (get_axis_index ops d (PyInt yAxisID)) (\<lambda>yA.
        bindE (project_nd ops d [xA, yA]) (\<lambda>p.
        get_datafield2 ops p 0))))"

text \<open>
  \<^verbatim>\<open>Drift.guess_templatedata\<close>, lines 125 to 136. Line 133 divides Python 2 integers:
  \<^verbatim>\<open>/\<close> is the floor division.
\<close>

definition guess_templatedata :: "('ds, 'b) dataset_ops \<Rightarrow> 'ds \<Rightarrow> int \<Rightarrow> int \<Rightarrow> error + 'b array2" where
  "guess_templatedata ops d xAxisID yAxisID =
     (if \<not> (is_DataSet ops d \<or> is_ROI ops d) then Inl AssertionError
      else
        bindE (get_axis_index ops d (PyInt xAxisID)) (\<lambda>xA.
        bindE (get_axis_index ops d (PyInt yAxisID)) (\<lambda>yA.
        bindE (tuple_getitem (ds_shape ops d) xA) (\<lambda>f0.
        bindE (tuple_getitem (ds_shape ops d) yA) (\<lambda>f1.
          let xl = int f0 * 2 div 5; xr = int f0 * 3 div 5;
              yl = int f1 * 2 div 5; yr = int f1 * 3 div 5;
              limitlist = [xA \<mapsto> (xl, xr), yA \<mapsto> (yl, yr)]
          in bindE (ROI ops d limitlist True) (\<lambda>roi.
             bindE (project_nd ops roi [xA, yA]) (\<lambda>p.
             get_datafield2 ops p 0)))))))"

text \<open>
  \<^verbatim>\<open>Drift.__init__\<close>, lines 12 to 50. The object built has the attributes \<^verbatim>\<open>data\<close>,
  \<^verbatim>\<open>template\<close> and \<^verbatim>\<open>drift\<close>. When \<^verbatim>\<open>data\<close> is \<^verbatim>\<open>None\<close> or false, the attribute
  \<^verbatim>\<open>self.data\<close> is never set and line 50 raises AttributeError.
\<close>

record ('ds, 'b, 'a) drift =
  self_data :: 'ds
  self_template :: "'b array2"
  self_drift :: "'a displacement list"

definition axis_or :: "pyval \<Rightarrow> string \<Rightarrow> pyval" where
  "axis_or axisID label = (if axisID = PyNone then PyStr label else axisID)"

definition drift_init ::
  "('b, 'a::{linorder,zero,plus,minus,times,inverse}) env \<Rightarrow> ('ds, 'b) dataset_ops
     \<Rightarrow> 'ds option \<Rightarrow> 'ds option \<Rightarrow> pyval \<Rightarrow> pyval \<Rightarrow> pyval \<Rightarrow> bool \<Rightarrow> string
     \<Rightarrow> error + ('ds, 'b, 'a) drift" where
  "drift_init env ops data template stackAxisID xAxisID yAxisID subpixel method =
     (case data of
        None \<Rightarrow> Inl AttributeError
      | Some d \<Rightarrow>
          if \<not> truth ops d then Inl AttributeError
          else
            bindE (get_axis_index ops d (axis_or stackAxisID ''delay'')) (\<lambda>dstackAxisID.
            bindE (get_axis_index ops d (axis_or xAxisID ''x'')) (\<lambda>dxAxisID.
            bindE (get_axis_index ops d (axis_or yAxisID ''y'')) (\<lambda>dyAxisID.
            bindE (extract_3Ddata ops d dstackAxisID dxAxisID dyAxisID) (\<lambda>sdata.
            bindE
              (case template of
                 Some t \<Rightarrow>
                   if truth ops t then
                     bindE (get_axis_index ops t (axis_or xAxisID ''x'')) (\<lambda>txAxisID.
                     bindE (get_axis_index ops t (axis_or yAxisID ''y'')) (\<lambda>tyAxisID.
                     extract_templatedata ops t txAxisID tyAxisID))
                   else guess_templatedata ops d dxAxisID dyAxisID
               | None \<Rightarrow> guess_templatedata ops d dxAxisID dyAxisID) (\<lambda>stemplate.
            bindE (get_datafield3 ops sdata 0) (\<lambda>field.
            bindE (template_matching_stack env field stemplate stackAxisID
                     ''cv.TM_CCOEFF_NORMED'' True) (\<lambda>dr.
            Inr \<lparr>self_data = sdata, self_template = stemplate, self_drift = dr\<rparr>))))))))"

section \<open>The same functions on a store\<close>














section \<open>Specification-side notions and instances for the examples\<close>

text \<open>
  The \<open>i\<close>-th slice of a stack along one of its three axes, as the specification speaks of
  it: the cells whose index on that axis is \<open>i\<close>, the other two axes in their order.
\<close>

definition nth_slice :: "'b array3 \<Rightarrow> nat \<Rightarrow> nat \<Rightarrow> 'b array2" where
  "nth_slice d axis i =
     (case shape d of (n0, n1, n2) \<Rightarrow>
        if axis = 0 then map (\<lambda>j. map (\<lambda>k. cell d i j k) [0..<n2]) [0..<n1]
        else if axis = 1 then map (\<lambda>j. map (\<lambda>k. cell d j i k) [0..<n2]) [0..<n0]
        else map (\<lambda>j. map (\<lambda>k. cell d j k i) [0..<n1]) [0..<n0])"

definition axis_len :: "'b array3 \<Rightarrow> nat \<Rightarrow> nat" where
  "axis_len d axis =
     (case shape d of (n0, n1, n2) \<Rightarrow> if axis = 0 then n0 else if axis = 1 then n1 else n2)"

text \<open>
  Where a surface has a global minimum or maximum: the entry of row \<open>y\<close> and column \<open>x\<close>
  exists and no entry is below (above) it. \<open>sole\<close>: no other entry reaches its value.
\<close>

definition is_min_at :: "('a::linorder) array2 \<Rightarrow> nat \<Rightarrow> nat \<Rightarrow> bool" where
  "is_min_at S x y =
     (y < length S \<and> x < length (S ! y) \<and> list_all (list_all (\<lambda>v. S ! y ! x \<le> v)) S)"

definition is_max_at :: "('a::linorder) array2 \<Rightarrow> nat \<Rightarrow> nat \<Rightarrow> bool" where
  "is_max_at S x y =
     (y < length S \<and> x < length (S ! y) \<and> list_all (list_all (\<lambda>v. v \<le> S ! y ! x)) S)"

definition sole_min_at :: "('a::linorder) array2 \<Rightarrow> nat \<Rightarrow> nat \<Rightarrow> bool" where
  "sole_min_at S x y =
     (is_min_at S x y \<and> length (filter (\<lambda>e. fst e \<le> S ! y ! x) (entries S)) = 1)"

definition sole_max_at :: "('a::linorder) array2 \<Rightarrow> nat \<Rightarrow> nat \<Rightarrow> bool" where
  "sole_max_at S x y =
     (is_max_at S x y \<and> length (filter (\<lambda>e. S ! y ! x \<le> fst e) (entries S)) = 1)"

text \<open>The extremum a method looks for: the minimum for the two squared-difference methods.\<close>

definition extremum_at :: "int \<Rightarrow> ('a::linorder) array2 \<Rightarrow> nat \<Rightarrow> nat \<Rightarrow> bool" where
  "extremum_at m S x y =
     (if m \<in> set [TM_SQDIFF, TM_SQDIFF_NORMED] then is_min_at S x y else is_max_at S x y)"

definition sole_extremum_at :: "int \<Rightarrow> ('a::linorder) array2 \<Rightarrow> nat \<Rightarrow> nat \<Rightarrow> bool" where
  "sole_extremum_at m S x y =
     (if m \<in> set [TM_SQDIFF, TM_SQDIFF_NORMED] then sole_min_at S x y else sole_max_at S x y)"

text \<open>The window of \<open>h\<close> rows and \<open>w\<close> columns of an image whose top left corner is row \<open>r\<close>, column \<open>c\<close>.\<close>

definition window :: "'a array2 \<Rightarrow> nat \<Rightarrow> nat \<Rightarrow> nat \<Rightarrow> nat \<Rightarrow> 'a array2" where
  "window a r c h w = map (\<lambda>row. take w (drop c row)) (take h (drop r a))"

definition ncols :: "'a array2 \<Rightarrow> nat" where
  "ncols a = (case a of [] \<Rightarrow> 0 | row # _ \<Rightarrow> length row)"

text \<open>
  An instance of the primitives over the reals, for the examples. It agrees with Python,
  numpy and OpenCV where the examples use it: on the method strings described below, on
  entries that are small integers (\<^verbatim>\<open>np.float32\<close> and the sums of the scores are then
  exact, so rounding is left out) and on positive scores (\<^verbatim>\<open>np.log\<close> is then the real
  logarithm; on a score that is not positive numpy answers \<open>nan\<close> or \<open>-inf\<close>, which no real
  number is). No theorem about the module rests on it: they hold for every \<open>env\<close>.

  \<open>py_eval_cv\<close>: the six names \<^verbatim>\<open>cv.TM_...\<close> evaluate to their values; the same names
  without \<^verbatim>\<open>cv.\<close> are not bound in the module (it imports \<^verbatim>\<open>cv2 as cv\<close> only) and raise
  NameError; an integer literal of decimal digits evaluates to its value, which Python 2
  reads in base 8 when the literal has a leading zero (\<^verbatim>\<open>'010'\<close> is 8, and \<^verbatim>\<open>'08'\<close> is a
  syntax error). What \<^verbatim>\<open>eval\<close> does on any other string is the parameter \<open>rest\<close>.
\<close>

definition cv_names :: "(string \<times> int) list" where
  "cv_names =
     [(''cv.TM_SQDIFF'', TM_SQDIFF), (''cv.TM_SQDIFF_NORMED'', TM_SQDIFF_NORMED),
      (''cv.TM_CCORR'', TM_CCORR), (''cv.TM_CCORR_NORMED'', TM_CCORR_NORMED),
      (''cv.TM_CCOEFF'', TM_CCOEFF), (''cv.TM_CCOEFF_NORMED'', TM_CCOEFF_NORMED)]"

definition digit :: "char \<Rightarrow> int option" where
  "digit c = (if c \<in> set ''0123456789'' then Some (int (of_char c) - 48) else None)"

fun radix :: "int \<Rightarrow> int \<Rightarrow> string \<Rightarrow> int option" where
  "radix base acc [] = Some acc"
| "radix base acc (c # cs) =
     (case digit c of
        None \<Rightarrow> None
      | Some v \<Rightarrow> if v < base then radix base (base * acc + v) cs else None)"

definition literal :: "string \<Rightarrow> (error + int) option" where
  "literal s =
     (if s = [] \<or> radix 10 0 s = None then None
      else if hd s = CHR ''0'' \<and> s \<noteq> ''0'' then
        (case radix 8 0 s of Some v \<Rightarrow> Some (Inr v) | None \<Rightarrow> Some (Inl SyntaxError))
      else (case radix 10 0 s of Some v \<Rightarrow> Some (Inr v) | None \<Rightarrow> None))"

definition py_eval_cv :: "(string \<Rightarrow> error + int) \<Rightarrow> string \<Rightarrow> error + int" where
  "py_eval_cv rest s =
     (case map_of cv_names s of
        Some v \<Rightarrow> Inr v
      | None \<Rightarrow>
          if s \<in> set (map (drop 3 \<circ> fst) cv_names) then Inl NameError
          else (case literal s of Some r \<Rightarrow> r | None \<Rightarrow> rest s))"

text \<open>
  \<open>cv_matchTemplate\<close>: the score of OpenCV's documentation for each method, at every
  position where the template fits in the image; the entry at row \<open>r\<close> and column \<open>c\<close> is
  the score of the window with that top left corner. As OpenCV's implementation does:
  \<^item> a method outside the six is refused;
  \<^item> when the image is smaller than the template in a dimension, the two change places if
    the image is not larger in the other dimension, and the call is refused otherwise: a
    template at least as large as the image in both dimensions is matched, with the image
    sliding over the template;
  \<^item> a normalised score is the quotient \<open>num / den\<close> when \<open>\<bar>num\<bar> < den\<close>, the sign of \<open>num\<close>
    when \<open>den \<le> \<bar>num\<bar> < 1.125 * den\<close>, and otherwise \<open>1\<close> for \<^verbatim>\<open>TM_SQDIFF_NORMED\<close> and \<open>0\<close>
    for the other two; for \<^verbatim>\<open>TM_CCOEFF_NORMED\<close> and a constant template every score is \<open>1\<close>.
  An array with no row or no column is refused.
\<close>

definition dot :: "real array2 \<Rightarrow> real array2 \<Rightarrow> real" where
  "dot a b = sum_list (map2 (*) (concat a) (concat b))"

definition mean :: "real array2 \<Rightarrow> real" where
  "mean a = sum_list (concat a) / real (length (concat a))"

definition centred :: "real array2 \<Rightarrow> real array2" where
  "centred a = map (map (\<lambda>v. v - mean a)) a"

definition sqdiff :: "real array2 \<Rightarrow> real array2 \<Rightarrow> real" where
  "sqdiff a b = sum_list (map2 (\<lambda>u v. (u - v) * (u - v)) (concat a) (concat b))"

definition normed :: "int \<Rightarrow> real \<Rightarrow> real \<Rightarrow> real" where
  "normed method num den =
     (if \<bar>num\<bar> < den then num / den
      else if \<bar>num\<bar> < den * 1.125 then (if 0 < num then 1 else - 1)
      else if method = TM_SQDIFF_NORMED then 1 else 0)"

definition score :: "int \<Rightarrow> real array2 \<Rightarrow> real array2 \<Rightarrow> real" where
  "score method t w =
     (if method = TM_SQDIFF then sqdiff t w
      else if method = TM_SQDIFF_NORMED then normed method (sqdiff t w) (sqrt (dot t t * dot w w))
      else if method = TM_CCORR then dot t w
      else if method = TM_CCORR_NORMED then normed method (dot t w) (sqrt (dot t t * dot w w))
      else if method = TM_CCOEFF then dot (centred t) (centred w)
      else if dot (centred t) (centred t) = 0 then 1
      else normed method (dot (centred t) (centred w))
             (sqrt (dot (centred t) (centred t) * dot (centred w) (centred w))))"

definition surface :: "int \<Rightarrow> real array2 \<Rightarrow> real array2 \<Rightarrow> real array2" where
  "surface method img templ =
     (let H = length img; W = ncols img; h = length templ; w = ncols templ in
      map (\<lambda>r. map (\<lambda>c. score method templ (window img r c h w)) [0..<W - w + 1])
          [0..<H - h + 1])"

definition cv_matchTemplate :: "real array2 \<Rightarrow> real array2 \<Rightarrow> int \<Rightarrow> error + real array2" where
  "cv_matchTemplate img templ method =
     (let H = length img; W = ncols img; h = length templ; w = ncols templ in
      if method < TM_SQDIFF \<or> TM_CCOEFF_NORMED < method then Inl CvError
      else if H = 0 \<or> W = 0 \<or> h = 0 \<or> w = 0 then Inl CvError
      else if H < h \<or> W < w then
        (if H \<le> h \<and> W \<le> w then Inr (surface method templ img) else Inl CvError)
      else Inr (surface method img templ))"

definition cv_real :: "(real, real) env" where
  "cv_real =
     \<lparr>py_eval = py_eval_cv (\<lambda>s. Inl SyntaxError), float32 = (\<lambda>v. v),
      matchTemplate = cv_matchTemplate, np_log = ln, pyfloat = real_of_int\<rparr>"




text \<open>An instance whose matching primitive answers a given surface, to run the functions on it.\<close>

definition surface_env :: "real array2 \<Rightarrow> (real, real) env" where
  "surface_env S = cv_real\<lparr>matchTemplate := (\<lambda>img templ method. Inr S)\<rparr>"

text \<open>
  An instance of the dataset operations: a dataset is its shape, its axes are labelled
  \<^verbatim>\<open>delay\<close>, \<^verbatim>\<open>x\<close>, \<^verbatim>\<open>y\<close> in this order, every cell holds \<open>1\<close>, and a region of interest has
  the shape its limits give.
\<close>

definition label_index :: "pyval \<Rightarrow> error + int" where
  "label_index v =
     (case v of
        PyInt i \<Rightarrow> Inr i
      | PyStr s \<Rightarrow>
          (if s = ''delay'' then Inr 0 else if s = ''x'' then Inr 1
           else if s = ''y'' then Inr 2 else Inl AttributeError)
      | PyNone \<Rightarrow> Inl TypeError)"

definition ones3 :: "nat list \<Rightarrow> real array3" where
  "ones3 s = \<lparr>shape = (s ! 0, s ! 1, s ! 2), cell = (\<lambda>i j k. 1)\<rparr>"

definition ones2 :: "nat list \<Rightarrow> real array2" where
  "ones2 s = replicate (s ! 0) (replicate (s ! 1) 1)"

definition roi_shape :: "nat list \<Rightarrow> (int \<rightharpoonup> int \<times> int) \<Rightarrow> nat list" where
  "roi_shape s limits =
     map (\<lambda>(i, n). case limits (int i) of None \<Rightarrow> n | Some (lo, hi) \<Rightarrow> nat (hi - lo))
         (enumerate 0 s)"

definition shape_ops :: "(nat list, real) dataset_ops" where
  "shape_ops =
     \<lparr>truth = (\<lambda>d. True), is_DataSet = (\<lambda>d. True), is_ROI = (\<lambda>d. False),
      get_axis_index = (\<lambda>d v. label_index v), ds_shape = (\<lambda>d. d),
      project_nd = (\<lambda>d axes. Inr (map (\<lambda>i. d ! nat i) axes)),
      get_datafield3 = (\<lambda>d i. Inr (ones3 d)), get_datafield2 = (\<lambda>d i. Inr (ones2 d)),
      ROI = (\<lambda>d limits by_index. Inr (roi_shape d limits))\<rparr>"

section \<open>Basic facts\<close>

lemma bindE_Inr [simp]: "bindE (Inr v) f = f v"
  by (simp add: bindE_def)

lemma bindE_Inl [simp]: "bindE (Inl e) f = Inl e"
  by (simp add: bindE_def)

lemma entries_mem:
  "e \<in> set (entries a) \<longleftrightarrow> (\<exists>r c. r < length a \<and> c < length (a ! r) \<and> e = (a ! r ! c, (int c, int r)))"
proof
  assume "e \<in> set (entries a)"
  then obtain r row c v where p: "(r, row) \<in> set (enumerate 0 a)"
    and q: "(c, v) \<in> set (enumerate 0 row)" and eq: "e = (v, (int c, int r))"
    by (auto simp: entries_def)
  from p have 1: "r < length a" "row = a ! r" by (auto simp: in_set_enumerate_eq)
  from q have 2: "c < length row" "v = row ! c" by (auto simp: in_set_enumerate_eq)
  show "\<exists>r c. r < length a \<and> c < length (a ! r) \<and> e = (a ! r ! c, (int c, int r))"
    using 1 2 eq by (intro exI[of _ r] exI[of _ c]) simp
next
  assume "\<exists>r c. r < length a \<and> c < length (a ! r) \<and> e = (a ! r ! c, (int c, int r))"
  then obtain r c where rc: "r < length a" "c < length (a ! r)" "e = (a ! r ! c, (int c, int r))"
    by blast
  have p: "(r, a ! r) \<in> set (enumerate 0 a)" using rc by (simp add: in_set_enumerate_eq)
  have q: "(c, a ! r ! c) \<in> set (enumerate 0 (a ! r))" using rc by (simp add: in_set_enumerate_eq)
  have "e \<in> set (map (\<lambda>(c, v). (v, (int c, int r))) (enumerate 0 (a ! r)))"
    using q rc(3) by force
  then show "e \<in> set (entries a)"
    unfolding entries_def using p by force
qed


lemma entries_at: "r < length a \<Longrightarrow> c < length (a ! r) \<Longrightarrow> (a ! r ! c, (int c, int r)) \<in> set (entries a)"
  unfolding entries_mem by blast

lemma all_entries: "list_all (list_all P) S \<longleftrightarrow> (\<forall>e \<in> set (entries S). P (fst e))"
proof
  assume a: "list_all (list_all P) S"
  show "\<forall>e \<in> set (entries S). P (fst e)"
  proof
    fix e assume "e \<in> set (entries S)"
    then obtain r c where "r < length S" "c < length (S ! r)" "e = (S ! r ! c, (int c, int r))"
      unfolding entries_mem by blast
    with a show "P (fst e)" by (simp add: list_all_length)
  qed
next
  assume a: "\<forall>e \<in> set (entries S). P (fst e)"
  have "P (S ! r ! c)" if "r < length S" "c < length (S ! r)" for r c
    using a entries_at[OF that] by force
  then show "list_all (list_all P) S" by (simp add: list_all_length)
qed

lemma scan_min_mem: "scan_min b es \<in> set (b # es)"
  by (induction es arbitrary: b) auto

lemma scan_min_le: "e \<in> set (b # es) \<Longrightarrow> fst (scan_min b es) \<le> fst e"
proof (induction es arbitrary: b e)
  case Nil
  then show ?case by simp
next
  case (Cons a es)
  let ?b = "if fst a < fst b then a else b"
  have step: "fst (scan_min ?b es) \<le> fst ?b"
    using Cons.IH[of ?b ?b] by simp
  from Cons.prems consider "e = b" | "e = a" | "e \<in> set es" by auto
  then show ?case
  proof cases
    case 1
    with step show ?thesis by (simp split: if_splits)
  next
    case 2
    with step show ?thesis by (simp split: if_splits)
  next
    case 3
    then show ?thesis using Cons.IH[of e ?b] by simp
  qed
qed

lemma scan_max_mem: "scan_max b es \<in> set (b # es)"
  by (induction es arbitrary: b) auto

lemma scan_max_ge: "e \<in> set (b # es) \<Longrightarrow> fst e \<le> fst (scan_max b es)"
proof (induction es arbitrary: b e)
  case Nil
  then show ?case by simp
next
  case (Cons a es)
  let ?b = "if fst b < fst a then a else b"
  have step: "fst ?b \<le> fst (scan_max ?b es)"
    using Cons.IH[of ?b ?b] by simp
  from Cons.prems consider "e = b" | "e = a" | "e \<in> set es" by auto
  then show ?case
  proof cases
    case 1
    with step show ?thesis by (simp split: if_splits)
  next
    case 2
    with step show ?thesis by (simp split: if_splits)
  next
    case 3
    then show ?thesis using Cons.IH[of e ?b] by simp
  qed
qed


lemma minMaxLoc_min:
  assumes "entries S \<noteq> []" "minMaxLoc S = (mn, mx, min_loc, max_loc)"
  shows "\<exists>x y. min_loc = (int x, int y) \<and> is_min_at S x y"
proof -
  obtain e es where es: "entries S = e # es" using assms(1) by (cases "entries S") auto
  have ml: "(mn, min_loc) = scan_min e es"
    using assms(2) by (auto simp add: minMaxLoc_def es Let_def)
  have "scan_min e es \<in> set (entries S)" using scan_min_mem[of e es] es by simp
  then obtain r c where rc: "r < length S" "c < length (S ! r)" "scan_min e es = (S ! r ! c, (int c, int r))"
    unfolding entries_mem by blast
  have "\<forall>e' \<in> set (entries S). S ! r ! c \<le> fst e'"
    using scan_min_le[of _ e es] es rc(3) by simp
  then have "is_min_at S c r" using rc by (simp add: is_min_at_def all_entries)
  moreover have "min_loc = (int c, int r)" using ml rc(3) by simp
  ultimately show ?thesis by blast
qed

lemma minMaxLoc_max:
  assumes "entries S \<noteq> []" "minMaxLoc S = (mn, mx, min_loc, max_loc)"
  shows "\<exists>x y. max_loc = (int x, int y) \<and> is_max_at S x y"
proof -
  obtain e es where es: "entries S = e # es" using assms(1) by (cases "entries S") auto
  have ml: "(mx, max_loc) = scan_max e es"
    using assms(2) by (auto simp add: minMaxLoc_def es Let_def)
  have "scan_max e es \<in> set (entries S)" using scan_max_mem[of e es] es by simp
  then obtain r c where rc: "r < length S" "c < length (S ! r)" "scan_max e es = (S ! r ! c, (int c, int r))"
    unfolding entries_mem by blast
  have "\<forall>e' \<in> set (entries S). fst e' \<le> S ! r ! c"
    using scan_max_ge[of _ e es] es rc(3) by simp
  then have "is_max_at S c r" using rc by (simp add: is_max_at_def all_entries)
  moreover have "max_loc = (int c, int r)" using ml rc(3) by simp
  ultimately show ?thesis by blast
qed

lemma single_filter:
  assumes "length (filter P xs) = 1" "a \<in> set xs" "P a" "b \<in> set xs" "P b"
  shows "a = b"
proof -
  obtain z where z: "filter P xs = [z]"
    using assms(1) by (cases "filter P xs") auto
  have "a \<in> set (filter P xs)" "b \<in> set (filter P xs)" using assms by auto
  then show ?thesis by (simp add: z)
qed

lemma sole_min_unique:
  assumes "sole_min_at S dx dy" "is_min_at S x y"
  shows "x = dx \<and> y = dy"
proof -
  have d: "dy < length S" "dx < length (S ! dy)" and m: "y < length S" "x < length (S ! y)"
    using assms by (auto simp: sole_min_at_def is_min_at_def)
  have "list_all (list_all (\<lambda>v. S ! y ! x \<le> v)) S" using assms(2) by (simp add: is_min_at_def)
  then have le: "S ! y ! x \<le> S ! dy ! dx"
    using d by (simp add: list_all_length)
  have "(S ! y ! x, (int x, int y)) = (S ! dy ! dx, (int dx, int dy))"
  proof (rule single_filter)
    show "length (filter (\<lambda>e. fst e \<le> S ! dy ! dx) (entries S)) = 1"
      using assms(1) by (simp add: sole_min_at_def)
    show "(S ! y ! x, (int x, int y)) \<in> set (entries S)" using m by (rule entries_at)
    show "(S ! dy ! dx, (int dx, int dy)) \<in> set (entries S)" using d by (rule entries_at)
  qed (use le in simp_all)
  then show ?thesis by simp
qed

lemma sole_max_unique:
  assumes "sole_max_at S dx dy" "is_max_at S x y"
  shows "x = dx \<and> y = dy"
proof -
  have d: "dy < length S" "dx < length (S ! dy)" and m: "y < length S" "x < length (S ! y)"
    using assms by (auto simp: sole_max_at_def is_max_at_def)
  have "list_all (list_all (\<lambda>v. v \<le> S ! y ! x)) S" using assms(2) by (simp add: is_max_at_def)
  then have le: "S ! dy ! dx \<le> S ! y ! x"
    using d by (simp add: list_all_length)
  have "(S ! y ! x, (int x, int y)) = (S ! dy ! dx, (int dx, int dy))"
  proof (rule single_filter)
    show "length (filter (\<lambda>e. S ! dy ! dx \<le> fst e) (entries S)) = 1"
      using assms(1) by (simp add: sole_max_at_def)
    show "(S ! y ! x, (int x, int y)) \<in> set (entries S)" using m by (rule entries_at)
    show "(S ! dy ! dx, (int dx, int dy)) \<in> set (entries S)" using d by (rule entries_at)
  qed (use le in simp_all)
  then show ?thesis by simp
qed

lemma template_matching_pixel:
  assumes ev: "py_eval env method = Inr m"
    and mt: "matchTemplate env (map (map (float32 env)) array) (map (map (float32 env)) template) m = Inr S"
    and ne: "entries S \<noteq> []"
  shows "\<exists>x y. template_matching env array template method False = Inr (Pixel (int x, int y))
           \<and> extremum_at m S x y"
proof -
  obtain mn mx min_loc max_loc where mm: "minMaxLoc S = (mn, mx, min_loc, max_loc)"
    by (metis prod_cases4)
  show ?thesis
  proof (cases "m \<in> set [TM_SQDIFF, TM_SQDIFF_NORMED]")
    case True
    obtain x y where "min_loc = (int x, int y)" "is_min_at S x y"
      using minMaxLoc_min[OF ne mm] by blast
    with True show ?thesis
      by (simp add: template_matching_def ev mt mm Let_def extremum_at_def)
  next
    case False
    obtain x y where "max_loc = (int x, int y)" "is_max_at S x y"
      using minMaxLoc_max[OF ne mm] by blast
    with False show ?thesis
      by (simp add: template_matching_def ev mt mm Let_def extremum_at_def)
  qed
qed

section \<open>Claim C1: the displacement without sub-pixel refinement\<close>

text \<open>
  Claim C1, as the code has it. When the method string evaluates to \<open>m\<close> and the matching
  primitive answers a surface \<open>S\<close> with at least one entry, \<^verbatim>\<open>template_matching\<close> with
  \<^verbatim>\<open>subpixel\<close> false returns a pair of integers \<open>(x, y)\<close>, column and row of a global minimum
  of \<open>S\<close> for \<^verbatim>\<open>TM_SQDIFF\<close> and \<^verbatim>\<open>TM_SQDIFF_NORMED\<close> and of a global maximum for any other
  method; and when the extremum of \<open>S\<close> is reached at \<open>(dx, dy)\<close> only, it returns exactly
  \<open>(dx, dy)\<close>. That the slice holds a copy of the template at \<open>(dx, dy)\<close> does not put the
  extremum there: the counterexample below is a slice with the template at \<open>(0, 0)\<close> whose
  \<^verbatim>\<open>TM_CCORR\<close> surface is greatest at \<open>(2, 0)\<close>.
\<close>

theorem template_matching_extremum:
  assumes ev: "py_eval env method = Inr m"
    and mt: "matchTemplate env (map (map (float32 env)) array) (map (map (float32 env)) template) m = Inr S"
    and ne: "entries S \<noteq> []"
  shows "(\<exists>x y. template_matching env array template method False = Inr (Pixel (int x, int y))
            \<and> extremum_at m S x y)
         \<and> (\<forall>dx dy. sole_extremum_at m S dx dy \<longrightarrow>
               template_matching env array template method False = Inr (Pixel (int dx, int dy)))"
proof (intro conjI allI impI)
  show "\<exists>x y. template_matching env array template method False = Inr (Pixel (int x, int y))
            \<and> extremum_at m S x y"
    using assms by (rule template_matching_pixel)
next
  fix dx dy assume sole: "sole_extremum_at m S dx dy"
  obtain x y where r: "template_matching env array template method False = Inr (Pixel (int x, int y))"
    and e: "extremum_at m S x y"
    using template_matching_pixel[OF assms] by blast
  have "x = dx \<and> y = dy"
  proof (cases "m \<in> set [TM_SQDIFF, TM_SQDIFF_NORMED]")
    case True
    with sole e show ?thesis
      using sole_min_unique[of S dx dy x y] by (simp add: sole_extremum_at_def extremum_at_def)
  next
    case False
    with sole e show ?thesis
      using sole_max_unique[of S dx dy x y] by (simp add: sole_extremum_at_def extremum_at_def)
  qed
  with r show "template_matching env array template method False = Inr (Pixel (int dx, int dy))"
    by simp
qed

lemma sqdiff_example:
  "cv_matchTemplate [[1, 2, 9, 9], [3, 4, 9, 9]] [[1, 2], [3, 4]] TM_SQDIFF = Inr [[0, 76, 174]]"
  by (simp add: cv_matchTemplate_def surface_def ncols_def TM_SQDIFF_def TM_CCOEFF_NORMED_def Let_def
      score_def window_def sqdiff_def upt_rec)

theorem template_matching_extremum_witness:
  "template_matching cv_real [[1, 2, 9, 9], [3, 4, 9, 9]] [[1, 2], [3, 4]] ''cv.TM_SQDIFF'' False
     = Inr (Pixel (0, 0))
   \<and> sole_extremum_at TM_SQDIFF [[0, 76, 174 :: real]] 0 0"
proof -
  have ev: "py_eval cv_real ''cv.TM_SQDIFF'' = Inr TM_SQDIFF"
    by (simp add: cv_real_def py_eval_cv_def cv_names_def)
  have mt: "matchTemplate cv_real (map (map (float32 cv_real)) [[1, 2, 9, 9], [3, 4, 9, 9]])
      (map (map (float32 cv_real)) [[1, 2], [3, 4]]) TM_SQDIFF = Inr [[0, 76, 174]]"
    using sqdiff_example by (simp add: cv_real_def)
  have ne: "entries [[0, 76, 174 :: real]] \<noteq> []"
    by (simp add: entries_def)
  have sole: "sole_extremum_at TM_SQDIFF [[0, 76, 174 :: real]] 0 0"
    by (simp add: sole_extremum_at_def sole_min_at_def is_min_at_def entries_def)
  from template_matching_extremum[OF ev mt ne] sole show ?thesis
    by (metis of_nat_0)
qed

theorem template_matching_ccorr_counterexample:
  "window [[1, 2, 9, 9], [3, 4, 9, 9 :: real]] 0 0 2 2 = [[1, 2], [3, 4]]
   \<and> template_matching cv_real [[1, 2, 9, 9], [3, 4, 9, 9]] [[1, 2], [3, 4]] ''cv.TM_CCORR'' False
       = Inr (Pixel (2, 0))"
  by (simp add: template_matching_def cv_real_def py_eval_cv_def cv_names_def
      cv_matchTemplate_def surface_def ncols_def TM_SQDIFF_def TM_SQDIFF_NORMED_def TM_CCORR_def
      TM_CCORR_NORMED_def TM_CCOEFF_def TM_CCOEFF_NORMED_def Let_def score_def window_def
      dot_def minMaxLoc_def entries_def upt_rec)

section \<open>Claims C2 and C4: the sub-pixel estimator\<close>

lemma py_index_mod: "- int n \<le> i \<Longrightarrow> i < int n \<Longrightarrow> py_index n i = Inr (nat (i mod int n))"
proof (cases "0 \<le> i")
  case True
  assume "i < int n"
  with True show ?thesis by (simp add: py_index_def)
next
  case False
  assume a: "- int n \<le> i" "i < int n"
  have "(i + int n) mod int n = i + int n"
    using a False by (intro mod_pos_pos_trivial) auto
  then have "i mod int n = int n + i" by (simp add: add.commute)
  with a False show ?thesis by (simp add: py_index_def)
qed

lemma rect_row: "rect r c a \<Longrightarrow> i < r \<Longrightarrow> length (a ! i) = c"
  by (simp add: rect_def list_all_length)

lemma getitem2_mod:
  assumes "rect r c a" "- int r \<le> i" "i < int r" "- int c \<le> j" "j < int c"
  shows "getitem2 a i j = Inr (a ! nat (i mod int r) ! nat (j mod int c))"
proof -
  have r: "length a = r" using assms(1) by (simp add: rect_def)
  have "0 < r" using assms(2,3) by linarith
  then have "nat (i mod int r) < r" by (simp add: nat_less_iff)
  then have "length (a ! nat (i mod int r)) = c" using assms(1) by (rule rect_row[rotated])
  then show ?thesis
    using assms by (simp add: getitem2_def r py_index_mod)
qed

lemma getitem2_in:
  assumes "rect r c a" "0 \<le> i" "i < int r" "0 \<le> j" "j < int c"
  shows "getitem2 a i j = Inr (a ! nat i ! nat j)"
  using getitem2_mod[OF assms(1), of i j] assms by simp

lemma getitem2_out1: "int (length a) \<le> i \<Longrightarrow> getitem2 a i j = Inl IndexError"
  by (simp add: getitem2_def py_index_def)

lemma getitem2_out2:
  assumes "rect r c a" "0 \<le> i" "i < int r" "int c \<le> j"
  shows "getitem2 a i j = Inl IndexError"
proof -
  have r: "length a = r" using assms(1) by (simp add: rect_def)
  have "length (a ! nat i) = c" using assms by (intro rect_row[of r c a]) auto
  then show ?thesis using assms by (simp add: getitem2_def r py_index_def)
qed

text \<open>
  The value at a peak that has a successor on both axes. The predecessor index \<open>x - 1\<close> is taken
  modulo the length of the axis: at \<open>x = 0\<close> numpy reads the last row.
\<close>

lemma subpixel_peak_wrap:
  assumes S: "rect r c S" and x: "0 \<le> x" "x + 1 < int r" and y: "0 \<le> y" "y + 1 < int c"
  shows "subpixel_peak env (x, y) S =
     Inr (pyfloat env x
            + (np_log env (S ! nat ((x - 1) mod int r) ! nat y) - np_log env (S ! nat (x + 1) ! nat y))
              / (pyfloat env 2 * np_log env (S ! nat ((x - 1) mod int r) ! nat y)
                 + pyfloat env 2 * np_log env (S ! nat (x + 1) ! nat y)
                 - pyfloat env 4 * np_log env (S ! nat x ! nat y)),
          pyfloat env y
            + (np_log env (S ! nat x ! nat ((y - 1) mod int c)) - np_log env (S ! nat x ! nat (y + 1)))
              / (pyfloat env 2 * np_log env (S ! nat x ! nat ((y - 1) mod int c))
                 - pyfloat env 4 * np_log env (S ! nat x ! nat y)
                 + pyfloat env 2 * np_log env (S ! nat x ! nat (y + 1))))"
proof -
  have a: "getitem2 S (x - 1) y = Inr (S ! nat ((x - 1) mod int r) ! nat y)"
    using getitem2_mod[OF S, of "x - 1" y] x y by simp
  have b: "getitem2 S (x + 1) y = Inr (S ! nat (x + 1) ! nat y)"
    using getitem2_in[OF S, of "x + 1" y] x y by simp
  have m: "getitem2 S x y = Inr (S ! nat x ! nat y)"
    using getitem2_in[OF S, of x y] x y by simp
  have d: "getitem2 S x (y - 1) = Inr (S ! nat x ! nat ((y - 1) mod int c))"
    using getitem2_mod[OF S, of x "y - 1"] x y by simp
  have e: "getitem2 S x (y + 1) = Inr (S ! nat x ! nat (y + 1))"
    using getitem2_in[OF S, of x "y + 1"] x y by simp
  show ?thesis
    by (simp add: subpixel_peak_def Let_def a b m d e)
qed

lemma subpixel_peak_last:
  assumes S: "rect r c S" and x: "0 \<le> x" "x < int r" and y: "0 \<le> y" "y < int c"
    and last: "x + 1 = int r \<or> y + 1 = int c"
  shows "subpixel_peak env (x, y) S = Inl IndexError"
proof -
  have r: "length S = r" using S by (simp add: rect_def)
  have m: "getitem2 S x y = Inr (S ! nat x ! nat y)"
    using getitem2_in[OF S, of x y] x y by simp
  have a: "getitem2 S (x - 1) y = Inr (S ! nat ((x - 1) mod int r) ! nat y)"
    using getitem2_mod[OF S, of "x - 1" y] x y by simp
  have d: "getitem2 S x (y - 1) = Inr (S ! nat x ! nat ((y - 1) mod int c))"
    using getitem2_mod[OF S, of x "y - 1"] x y by simp
  show ?thesis
  proof (cases "x + 1 = int r")
    case True
    then have "getitem2 S (x + 1) y = Inl IndexError"
      by (simp add: getitem2_out1 r)
    then show ?thesis by (simp add: subpixel_peak_def Let_def a)
  next
    case False
    with last x have y1: "y + 1 = int c" and x1: "x + 1 < int r" by auto
    have b: "getitem2 S (x + 1) y = Inr (S ! nat (x + 1) ! nat y)"
      using getitem2_in[OF S, of "x + 1" y] x1 x y by simp
    have "getitem2 S x (y + 1) = Inl IndexError"
      using getitem2_out2[OF S, of x "y + 1"] x y1 by simp
    then show ?thesis by (simp add: subpixel_peak_def Let_def a b m d)
  qed
qed

text \<open>
  Claim C2. For a surface \<open>S\<close> of \<open>r\<close> rows and \<open>c\<close> columns and a peak \<open>(x, y)\<close> that is not on
  its border, \<open>x\<close> indexing the first axis and \<open>y\<close> the second, \<^verbatim>\<open>subpixel_peak\<close> returns
  \<open>x + (ln S[x-1,y] - ln S[x+1,y]) / (2 ln S[x-1,y] + 2 ln S[x+1,y] - 4 ln S[x,y])\<close> and
  \<open>y + (ln S[x,y-1] - ln S[x,y+1]) / (2 ln S[x,y-1] - 4 ln S[x,y] + 2 ln S[x,y+1])\<close>, the
  logarithm and the arithmetic being those of the scores. The equation needs no hypothesis on
  the sign of the entries: it holds in particular when they are positive.
\<close>

theorem subpixel_peak_interior:
  assumes "rect r c S" and "1 \<le> x" "x + 1 < int r" and "1 \<le> y" "y + 1 < int c"
  shows "subpixel_peak env (x, y) S =
     Inr (pyfloat env x
            + (np_log env (S ! nat (x - 1) ! nat y) - np_log env (S ! nat (x + 1) ! nat y))
              / (pyfloat env 2 * np_log env (S ! nat (x - 1) ! nat y)
                 + pyfloat env 2 * np_log env (S ! nat (x + 1) ! nat y)
                 - pyfloat env 4 * np_log env (S ! nat x ! nat y)),
          pyfloat env y
            + (np_log env (S ! nat x ! nat (y - 1)) - np_log env (S ! nat x ! nat (y + 1)))
              / (pyfloat env 2 * np_log env (S ! nat x ! nat (y - 1))
                 - pyfloat env 4 * np_log env (S ! nat x ! nat y)
                 + pyfloat env 2 * np_log env (S ! nat x ! nat (y + 1))))"
proof -
  have "(x - 1) mod int r = x - 1" "(y - 1) mod int c = y - 1"
    using assms by (simp_all add: mod_pos_pos_trivial)
  then show ?thesis
    using subpixel_peak_wrap[of r c S x y env] assms by simp
qed

theorem subpixel_peak_interior_witness:
  "subpixel_peak cv_real (1, 1) [[1, 2, 1], [3, 5, 4], [1, 2, 1]] =
     Inr (1 + (ln 2 - ln 2) / (2 * ln 2 + 2 * ln 2 - 4 * ln 5),
          1 + (ln 3 - ln 4) / (2 * ln 3 - 4 * ln 5 + 2 * ln 4))"
  using subpixel_peak_interior[of 3 3 "[[1, 2, 1], [3, 5, 4], [1, 2, 1]]" 1 1 cv_real]
  by (simp add: rect_def cv_real_def)

text \<open>
  Claim C4, as the code has it. \<^verbatim>\<open>subpixel_peak\<close> checks neither the bounds nor the sign of
  the entries. For a peak \<open>(x, y)\<close> inside a surface of \<open>r\<close> rows and \<open>c\<close> columns it raises
  IndexError when \<open>x\<close> is the last index of the first axis or \<open>y\<close> the last index of the second.
  Otherwise it returns the value of the formula and raises nothing: at \<open>x = 0\<close> or \<open>y = 0\<close> the
  index \<open>-1\<close> reads the last row or column in place of the missing neighbour, and the logarithm
  of an entry that is not positive is taken as numpy gives it.
\<close>

theorem subpixel_peak_bounds:
  assumes "rect r c S" and "0 \<le> x" "x < int r" and "0 \<le> y" "y < int c"
  shows "(x + 1 = int r \<or> y + 1 = int c \<longrightarrow> subpixel_peak env (x, y) S = Inl IndexError)
       \<and> (x + 1 < int r \<and> y + 1 < int c \<longrightarrow>
            subpixel_peak env (x, y) S =
              Inr (pyfloat env x
                     + (np_log env (S ! nat ((x - 1) mod int r) ! nat y)
                        - np_log env (S ! nat (x + 1) ! nat y))
                       / (pyfloat env 2 * np_log env (S ! nat ((x - 1) mod int r) ! nat y)
                          + pyfloat env 2 * np_log env (S ! nat (x + 1) ! nat y)
                          - pyfloat env 4 * np_log env (S ! nat x ! nat y)),
                   pyfloat env y
                     + (np_log env (S ! nat x ! nat ((y - 1) mod int c))
                        - np_log env (S ! nat x ! nat (y + 1)))
                       / (pyfloat env 2 * np_log env (S ! nat x ! nat ((y - 1) mod int c))
                          - pyfloat env 4 * np_log env (S ! nat x ! nat y)
                          + pyfloat env 2 * np_log env (S ! nat x ! nat (y + 1)))))"
  using subpixel_peak_last[OF assms, of env] subpixel_peak_wrap[OF assms(1,2) _ assms(4), of env]
  by blast

theorem subpixel_peak_bounds_witness:
  "subpixel_peak cv_real (2, 1) [[5, 1, 1], [1, 2, 1], [1, 1, 3]] = Inl IndexError
   \<and> subpixel_peak cv_real (0, 0) [[5, 1, 1], [1, 2, 1], [1, 1, 3]] = Inr (0, 0)"
  using subpixel_peak_bounds[of 3 3 "[[5, 1, 1], [1, 2, 1], [1, 1, 3]]" 2 1 cv_real]
    subpixel_peak_bounds[of 3 3 "[[5, 1, 1], [1, 2, 1], [1, 1, 3]]" 0 0 cv_real]
  by (simp add: rect_def cv_real_def)

text \<open>
  The first surface has its maximum in the corner \<open>(0, 0)\<close>, the second has entries \<open>0\<close>
  beside its maximum at \<open>(1, 1)\<close>: no exception is raised on either.
\<close>

theorem subpixel_peak_border_counterexample:
  "snd (snd (snd (minMaxLoc [[5, 1, 1], [1, 2, 1], [1, 1, 3 :: real]]))) = (0, 0)
   \<and> subpixel_peak cv_real (0, 0) [[5, 1, 1], [1, 2, 1], [1, 1, 3]] = Inr (0, 0)
   \<and> snd (snd (snd (minMaxLoc [[1, 0, 1], [0, 2, 0], [1, 0, 1 :: real]]))) = (1, 1)
   \<and> \<not> isl (subpixel_peak cv_real (1, 1) [[1, 0, 1], [0, 2, 0], [1, 0, 1]])"
  by (simp add: minMaxLoc_def entries_def subpixel_peak_def getitem2_def py_index_def
      cv_real_def Let_def)

section \<open>Claims C3 and C6: the loop over the stack\<close>

lemma stack_loop_Inr:
  "stack_loop body is acc = Inr ds \<Longrightarrow>
     \<exists>ds'. ds = acc @ ds' \<and> length ds' = length is \<and> (\<forall>j<length is. body (is ! j) = Inr (ds' ! j))"
proof (induction "is" arbitrary: acc)
  case Nil
  then show ?case by simp
next
  case (Cons i "is")
  from Cons.prems obtain v where v: "body i = Inr v"
    and rest: "stack_loop body is (acc @ [v]) = Inr ds"
    by (cases "body i") auto
  from Cons.IH[OF rest] obtain ds' where ds': "ds = (acc @ [v]) @ ds'" "length ds' = length is"
    "\<forall>j<length is. body (is ! j) = Inr (ds' ! j)" by blast
  have "\<forall>j<length (i # is). body ((i # is) ! j) = Inr ((v # ds') ! j)"
    using v ds'(3) by (auto simp: nth_Cons split: nat.splits)
  with ds'(1,2) show ?case
    by (intro exI[of _ "v # ds'"]) simp
qed


lemma shape_getitem_axis:
  "0 \<le> k \<Longrightarrow> k < 3 \<Longrightarrow> shape_getitem (shape d) (PyInt k) = Inr (axis_len d (nat k))"
proof -
  assume "0 \<le> k" "k < 3"
  then consider "k = 0" | "k = 1" | "k = 2" by linarith
  then show ?thesis
    by cases (auto simp: shape_getitem_def axis_len_def py_index_def split: prod.splits)
qed

lemma stack_slice_nth:
  assumes "0 \<le> k" "k < 3" "i < axis_len d (nat k)"
  shows "stack_slice d (PyInt k) i = Inr (nth_slice d (nat k) i)"
proof -
  obtain n0 n1 n2 where s: "shape d = (n0, n1, n2)" by (cases "shape d") auto
  from assms consider "k = 0" | "k = 1" | "k = 2" by linarith
  then show ?thesis
  proof cases
    case 1
    with assms show ?thesis
      by (simp add: stack_slice_def list_insert_def getitem3_def nth_slice_def axis_len_def s py_index_def)
  next
    case 2
    with assms show ?thesis
      by (simp add: stack_slice_def list_insert_def getitem3_def nth_slice_def axis_len_def s py_index_def)
  next
    case 3
    with assms show ?thesis
      by (simp add: stack_slice_def list_insert_def getitem3_def nth_slice_def axis_len_def s py_index_def)
  qed
qed

text \<open>
  For a stack axis \<open>k\<close> among \<open>0, 1, 2\<close> the loop does what its name says: the list it returns
  has one entry per slice along that axis, and its \<open>i\<close>-th entry is what
  \<^verbatim>\<open>template_matching\<close> returns on the \<open>i\<close>-th slice alone.
\<close>

lemma template_matching_stack_slices:
  assumes run: "template_matching_stack env d template (PyInt k) method subpixel = Inr ds"
    and k: "0 \<le> k" "k < 3"
  shows "length ds = axis_len d (nat k)
       \<and> (\<forall>i<length ds.
            template_matching env (nth_slice d (nat k) i) template method subpixel = Inr (ds ! i))"
proof -
  let ?n = "axis_len d (nat k)"
  let ?body = "\<lambda>i. bindE (stack_slice d (PyInt k) i) (\<lambda>sl.
                 template_matching env sl template method subpixel)"
  have "stack_loop ?body [0..<?n] [] = Inr ds"
    using run by (simp add: template_matching_stack_def shape_getitem_axis[OF k])
  from stack_loop_Inr[OF this] have len: "length ds = ?n"
    and each: "\<forall>j<?n. ?body ([0..<?n] ! j) = Inr (ds ! j)" by auto
  have "template_matching env (nth_slice d (nat k) i) template method subpixel = Inr (ds ! i)"
    if "i < ?n" for i
  proof -
    have "?body i = Inr (ds ! i)" using each that by auto
    then show ?thesis by (simp add: stack_slice_nth[OF k that])
  qed
  with len show ?thesis by simp
qed


text \<open>
  Claim C3 fails on the code for a stack axis counted from the end. The stack below has the
  shape \<open>(2, 3, 2)\<close> and the entry \<open>3 * (6 * i + 2 * j + k)\<close> at \<open>(i, j, k)\<close>; the template is the
  single entry \<open>25\<close> and the method \<^verbatim>\<open>cv.TM_SQDIFF\<close>, so a displacement is the place of the entry
  nearest to \<open>25\<close>. With \<^verbatim>\<open>stackAxisID = -1\<close> line 55 reads \<^verbatim>\<open>data.shape[-1]\<close>, the length \<open>2\<close> of
  the last axis, but \<^verbatim>\<open>slicebase.insert(-1, i)\<close> on line 57 puts the index before the last
  entry of the list: the slices matched are \<^verbatim>\<open>data[:, i, :]\<close>, those of the middle axis. The
  list returned has the length of the stack axis, and its entry \<open>1\<close> is the displacement of
  slice \<open>1\<close> of the middle axis, \<open>(0, 1)\<close>, where slice \<open>1\<close> of the stack axis gives \<open>(1, 1)\<close>.
\<close>

theorem template_matching_stack_negative_axis:
  "template_matching_stack cv_real
       \<lparr>shape = (2, 3, 2), cell = (\<lambda>i j k. 3 * (6 * real i + 2 * real j + real k))\<rparr>
       [[25]] (PyInt (- 1)) ''cv.TM_SQDIFF'' False
     = Inr [Pixel (1, 1), Pixel (0, 1)]
   \<and> axis_len \<lparr>shape = (2, 3, 2), cell = (\<lambda>i j k. 3 * (6 * real i + 2 * real j + real k))\<rparr> 2
       = 2
   \<and> template_matching cv_real
        (nth_slice \<lparr>shape = (2, 3, 2), cell = (\<lambda>i j k. 3 * (6 * real i + 2 * real j + real k))\<rparr>
           2 1)
        [[25]] ''cv.TM_SQDIFF'' False
       = Inr (Pixel (1, 1))
   \<and> template_matching cv_real
        (nth_slice \<lparr>shape = (2, 3, 2), cell = (\<lambda>i j k. 3 * (6 * real i + 2 * real j + real k))\<rparr>
           1 1)
        [[25]] ''cv.TM_SQDIFF'' False
       = Inr (Pixel (0, 1))"
  by (simp add: template_matching_stack_def shape_getitem_def py_index_def stack_slice_def
      list_insert_def getitem3_def nth_slice_def axis_len_def template_matching_def cv_real_def
      py_eval_cv_def cv_names_def cv_matchTemplate_def surface_def ncols_def TM_SQDIFF_def
      TM_SQDIFF_NORMED_def TM_CCORR_def TM_CCORR_NORMED_def TM_CCOEFF_def TM_CCOEFF_NORMED_def
      Let_def score_def window_def sqdiff_def minMaxLoc_def entries_def upt_rec)





section \<open>Claim C5: the method string\<close>

text \<open>
  Claim C5, as the code has it. The method string is handed to \<^verbatim>\<open>eval\<close>, and the module
  has no list of accepted names and no exception of its own. \<^verbatim>\<open>template_matching\<close> raises,
  and returns no displacement, when the evaluation of the string raises (then with that very
  exception, such as NameError for a name the module does not bind) and when
  \<^verbatim>\<open>cv.matchTemplate\<close> raises on the value of the string. A string that is none of the six
  names and evaluates to the value of one of them is accepted: the counterexample is
  \<^verbatim>\<open>'2'\<close>, the value of \<^verbatim>\<open>cv.TM_CCORR\<close>.
\<close>

theorem template_matching_method:
  assumes "py_eval env method = Inl e
           \<or> (\<exists>m. py_eval env method = Inr m
                \<and> matchTemplate env (map (map (float32 env)) array)
                      (map (map (float32 env)) template) m = Inl e)"
  shows "template_matching env array template method subpixel = Inl e"
  using assms by (auto simp: template_matching_def Let_def)

theorem template_matching_method_witness:
  "template_matching cv_real [[1, 2, 9, 9], [3, 4, 9, 9]] [[1, 2], [3, 4]] ''TM_CCORR'' False
     = Inl NameError
   \<and> template_matching cv_real [[1, 2, 9, 9], [3, 4, 9, 9]] [[1, 2], [3, 4]] ''6'' False
     = Inl CvError"
proof -
  have 1: "py_eval cv_real ''TM_CCORR'' = Inl NameError"
    by (simp add: cv_real_def py_eval_cv_def cv_names_def)
  have 2: "py_eval cv_real ''6'' = Inr 6"
    by (simp add: cv_real_def py_eval_cv_def cv_names_def literal_def digit_def)
  have 3: "matchTemplate cv_real (map (map (float32 cv_real)) [[1, 2, 9, 9], [3, 4, 9, 9]])
             (map (map (float32 cv_real)) [[1, 2], [3, 4]]) 6 = Inl CvError"
    by (simp add: cv_real_def cv_matchTemplate_def surface_def TM_CCOEFF_NORMED_def Let_def)
  show ?thesis
    using template_matching_method[of cv_real "''TM_CCORR''" NameError _ _ False, OF disjI1, OF 1]
      template_matching_method[of cv_real "''6''" CvError "[[1, 2, 9, 9], [3, 4, 9, 9]]"
        "[[1, 2], [3, 4]]" False] 2 3
    by blast
qed

theorem template_matching_literal_counterexample:
  "''2'' \<notin> set (map fst cv_names)
   \<and> template_matching cv_real [[1, 2, 9, 9], [3, 4, 9, 9]] [[1, 2], [3, 4]] ''2'' False
       = Inr (Pixel (2, 0))"
  by (simp add: template_matching_def cv_real_def py_eval_cv_def cv_names_def literal_def digit_def
      cv_matchTemplate_def surface_def ncols_def TM_SQDIFF_def TM_SQDIFF_NORMED_def TM_CCORR_def
      TM_CCORR_NORMED_def TM_CCOEFF_def TM_CCOEFF_NORMED_def Let_def score_def window_def
      dot_def minMaxLoc_def entries_def upt_rec)

section \<open>Claim C7: the default template\<close>

lemma floor_fifths: "\<lfloor>real n * real_of_int q / 5\<rfloor> = int n * q div 5"
proof -
  have "real n * real_of_int q / 5 = real_of_int (int n * q) / real_of_int 5" by simp
  then show ?thesis by (simp only: floor_divide_of_int_eq)
qed

lemma bindE_eq_Inr: "bindE m f = Inr v \<longleftrightarrow> (\<exists>u. m = Inr u \<and> f u = Inr v)"
  by (cases m) auto

text \<open>
  Claim C7. When \<^verbatim>\<open>guess_templatedata\<close> returns a template, it is the data field of the region
  of interest whose index limits on the axis \<open>x\<close> are \<open>\<lfloor>dimx * 2 / 5\<rfloor>\<close> and \<open>\<lfloor>dimx * 3 / 5\<rfloor>\<close>
  and on the axis \<open>y\<close> are \<open>\<lfloor>dimy * 2 / 5\<rfloor>\<close> and \<open>\<lfloor>dimy * 3 / 5\<rfloor>\<close>, where \<open>dimx\<close> and \<open>dimy\<close>
  are the sizes of the two axes: the integers that the floor of the quotient gives.
\<close>

theorem guess_templatedata_limits:
  assumes "guess_templatedata ops d xAxisID yAxisID = Inr t"
  shows "\<exists>xA yA dimx dimy roi p.
           get_axis_index ops d (PyInt xAxisID) = Inr xA
         \<and> get_axis_index ops d (PyInt yAxisID) = Inr yA
         \<and> tuple_getitem (ds_shape ops d) xA = Inr dimx
         \<and> tuple_getitem (ds_shape ops d) yA = Inr dimy
         \<and> ROI ops d [xA \<mapsto> (\<lfloor>real dimx * 2 / 5\<rfloor>, \<lfloor>real dimx * 3 / 5\<rfloor>),
                       yA \<mapsto> (\<lfloor>real dimy * 2 / 5\<rfloor>, \<lfloor>real dimy * 3 / 5\<rfloor>)] True = Inr roi
         \<and> project_nd ops roi [xA, yA] = Inr p
         \<and> get_datafield2 ops p 0 = Inr t"
proof -
  have f: "\<lfloor>real n * 2 / 5\<rfloor> = int n * 2 div 5" "\<lfloor>real n * 3 / 5\<rfloor> = int n * 3 div 5" for n
    using floor_fifths[of n 2] floor_fifths[of n 3] by simp_all
  from assms show ?thesis
    unfolding guess_templatedata_def f
    by (auto simp: bindE_eq_Inr Let_def split: if_splits)
qed

lemma guess_example:
  "guess_templatedata shape_ops [5, 64, 64] 1 2 = Inr (ones2 [13, 13])"
  by (simp add: guess_templatedata_def shape_ops_def label_index_def tuple_getitem_def
      py_index_def roi_shape_def Let_def)

theorem guess_templatedata_limits_witness:
  "guess_templatedata shape_ops [5, 64, 64] 1 2 = Inr (ones2 [13, 13])
   \<and> (\<exists>xA yA dimx dimy roi p.
           get_axis_index shape_ops [5, 64, 64] (PyInt 1) = Inr xA
         \<and> get_axis_index shape_ops [5, 64, 64] (PyInt 2) = Inr yA
         \<and> tuple_getitem (ds_shape shape_ops [5, 64, 64]) xA = Inr dimx
         \<and> tuple_getitem (ds_shape shape_ops [5, 64, 64]) yA = Inr dimy
         \<and> ROI shape_ops [5, 64, 64]
              [xA \<mapsto> (\<lfloor>real dimx * 2 / 5\<rfloor>, \<lfloor>real dimx * 3 / 5\<rfloor>),
               yA \<mapsto> (\<lfloor>real dimy * 2 / 5\<rfloor>, \<lfloor>real dimy * 3 / 5\<rfloor>)] True = Inr roi
         \<and> project_nd shape_ops roi [xA, yA] = Inr p
         \<and> get_datafield2 shape_ops p 0 = Inr (ones2 [13, 13]))"
  using guess_templatedata_limits[OF guess_example] guess_example by blast

section \<open>Claims C9 and C10: the constructor\<close>

lemma template_matching_stack_axis:
  assumes "template_matching_stack env d template sid method subpixel = Inr ds"
  shows "\<exists>k. sid = PyInt k \<and> - 3 \<le> k \<and> k < 3"
proof (cases sid)
  case (PyInt k)
  with assms obtain n where "shape_getitem (shape d) (PyInt k) = Inr n"
    by (auto simp: template_matching_stack_def bindE_eq_Inr)
  then have "- 3 \<le> k \<and> k < 3"
    by (auto simp: shape_getitem_def py_index_def bindE_eq_Inr split: prod.splits if_splits)
  with PyInt show ?thesis by simp
qed (use assms in \<open>simp_all add: template_matching_stack_def shape_getitem_def\<close>)

lemma drift_init_Inr:
  assumes "drift_init env ops data template sid xid yid subpixel method = Inr ob"
  shows "\<exists>field. get_datafield3 ops (self_data ob) 0 = Inr field
           \<and> template_matching_stack env field (self_template ob) sid ''cv.TM_CCOEFF_NORMED'' True
               = Inr (self_drift ob)"
  using assms unfolding drift_init_def
  by (auto simp: bindE_eq_Inr split: option.splits if_splits)

text \<open>
  Claim C9. The constructor does not pass \<^verbatim>\<open>subpixel\<close> and \<^verbatim>\<open>method\<close> on: what it returns
  or raises is what it returns or raises with \<^verbatim>\<open>subpixel = True\<close> and
  \<^verbatim>\<open>method = 'cv.TM_CCOEFF_NORMED'\<close>, and the drift series of the object it builds is the
  list \<^verbatim>\<open>template_matching_stack\<close> returns with these two defaults.
\<close>

theorem drift_init_defaults:
  "drift_init env ops data template sid xid yid subpixel method
     = drift_init env ops data template sid xid yid True ''cv.TM_CCOEFF_NORMED''
   \<and> (\<forall>ob. drift_init env ops data template sid xid yid subpixel method = Inr ob \<longrightarrow>
         (\<exists>field. get_datafield3 ops (self_data ob) 0 = Inr field
            \<and> template_matching_stack env field (self_template ob) sid ''cv.TM_CCOEFF_NORMED'' True
                = Inr (self_drift ob)))"
  using drift_init_Inr[of env ops data template sid xid yid subpixel "method"]
  by (simp add: drift_init_def)

text \<open>
  A run of the constructor with \<^verbatim>\<open>subpixel = False\<close> and \<^verbatim>\<open>method = 'cv.TM_SQDIFF'\<close>: the
  series holds sub-pixel displacements at the maximum of the surface.
\<close>

lemma drift_example:
  "drift_init (surface_env [[1, 1, 1], [1, 2, 1], [1, 1, 1]]) shape_ops (Some [2, 5, 5]) None
       (PyInt 0) PyNone PyNone False ''cv.TM_SQDIFF''
     = Inr \<lparr>self_data = [2, 5, 5], self_template = [[1]],
            self_drift = [Subpixel (1, 1), Subpixel (1, 1)]\<rparr>"
  by (simp add: drift_init_def shape_ops_def axis_or_def label_index_def extract_3Ddata_def
      guess_templatedata_def tuple_getitem_def py_index_def roi_shape_def ones2_def ones3_def
      template_matching_stack_def shape_getitem_def stack_slice_def list_insert_def getitem3_def
      template_matching_def surface_env_def cv_real_def py_eval_cv_def cv_names_def
      TM_SQDIFF_def TM_SQDIFF_NORMED_def TM_CCORR_def TM_CCORR_NORMED_def TM_CCOEFF_def
      TM_CCOEFF_NORMED_def minMaxLoc_def entries_def subpixel_peak_def getitem2_def Let_def
      upt_rec eval_nat_numeral)


theorem drift_init_defaults_witness:
  "drift_init (surface_env [[1, 1, 1], [1, 2, 1], [1, 1, 1]]) shape_ops (Some [2, 5, 5]) None
       (PyInt 0) PyNone PyNone False ''cv.TM_SQDIFF''
     = drift_init (surface_env [[1, 1, 1], [1, 2, 1], [1, 1, 1]]) shape_ops (Some [2, 5, 5]) None
         (PyInt 0) PyNone PyNone True ''cv.TM_CCOEFF_NORMED''
   \<and> (\<exists>field. get_datafield3 shape_ops [2, 5, 5] 0 = Inr field
         \<and> template_matching_stack (surface_env [[1, 1, 1], [1, 2, 1], [1, 1, 1]]) field [[1]]
             (PyInt 0) ''cv.TM_CCOEFF_NORMED'' True
           = Inr [Subpixel (1, 1), Subpixel (1, 1)])"
  using drift_init_defaults[of "surface_env [[1, 1, 1], [1, 2, 1], [1, 1, 1]]" shape_ops
      "Some [2, 5, 5]" None "PyInt 0" PyNone PyNone False "''cv.TM_SQDIFF''"]
    drift_example
  by auto

text \<open>
  Claim C10. The constructor hands its argument \<^verbatim>\<open>stackAxisID\<close> to
  \<^verbatim>\<open>template_matching_stack\<close> as it received it. It builds an object only if the argument
  is an integer that indexes a tuple of three entries; with \<^verbatim>\<open>None\<close>, the default, and
  with a label it raises, although \<^verbatim>\<open>get_axis_index\<close> has resolved the axis before.
\<close>

theorem drift_init_stack_axis:
  "(\<forall>ob. drift_init env ops data template sid xid yid subpixel method = Inr ob \<longrightarrow>
      (\<exists>k. sid = PyInt k \<and> - 3 \<le> k \<and> k < 3))
   \<and> (sid = PyNone \<or> (\<exists>label. sid = PyStr label) \<longrightarrow>
        (\<exists>e. drift_init env ops data template sid xid yid subpixel method = Inl e))"
proof -
  have 1: "\<exists>k. sid = PyInt k \<and> - 3 \<le> k \<and> k < 3"
    if "drift_init env ops data template sid xid yid subpixel method = Inr ob" for ob
    using drift_init_Inr[OF that] template_matching_stack_axis by blast
  have 2: "\<exists>e. drift_init env ops data template sid xid yid subpixel method = Inl e"
    if "sid = PyNone \<or> (\<exists>label. sid = PyStr label)"
  proof (cases "drift_init env ops data template sid xid yid subpixel method")
    case (Inl e)
    then show ?thesis by blast
  next
    case (Inr ob)
    from 1[OF this] that show ?thesis by auto
  qed
  from 1 2 show ?thesis by blast
qed

lemma drift_none:
  "drift_init (surface_env [[1, 1, 1], [1, 2, 1], [1, 1, 1]]) shape_ops (Some [2, 5, 5]) None
       PyNone PyNone PyNone True ''cv.TM_CCOEFF_NORMED'' = Inl TypeError"
  by (simp add: drift_init_def shape_ops_def axis_or_def label_index_def extract_3Ddata_def
      guess_templatedata_def tuple_getitem_def py_index_def roi_shape_def ones2_def ones3_def
      template_matching_stack_def shape_getitem_def Let_def eval_nat_numeral)

lemma drift_label:
  "drift_init (surface_env [[1, 1, 1], [1, 2, 1], [1, 1, 1]]) shape_ops (Some [2, 5, 5]) None
       (PyStr ''delay'') PyNone PyNone True ''cv.TM_CCOEFF_NORMED'' = Inl TypeError"
  by (simp add: drift_init_def shape_ops_def axis_or_def label_index_def extract_3Ddata_def
      guess_templatedata_def tuple_getitem_def py_index_def roi_shape_def ones2_def ones3_def
      template_matching_stack_def shape_getitem_def Let_def eval_nat_numeral)

theorem drift_init_stack_axis_witness:
  "get_axis_index shape_ops [2, 5, 5] (axis_or PyNone ''delay'') = Inr 0
   \<and> drift_init (surface_env [[1, 1, 1], [1, 2, 1], [1, 1, 1]]) shape_ops (Some [2, 5, 5]) None
         PyNone PyNone PyNone True ''cv.TM_CCOEFF_NORMED'' = Inl TypeError
   \<and> get_axis_index shape_ops [2, 5, 5] (axis_or (PyStr ''delay'') ''delay'') = Inr 0
   \<and> drift_init (surface_env [[1, 1, 1], [1, 2, 1], [1, 1, 1]]) shape_ops (Some [2, 5, 5]) None
         (PyStr ''delay'') PyNone PyNone True ''cv.TM_CCOEFF_NORMED'' = Inl TypeError
   \<and> (\<exists>ob. drift_init (surface_env [[1, 1, 1], [1, 2, 1], [1, 1, 1]]) shape_ops (Some [2, 5, 5])
         None (PyInt 0) PyNone PyNone False ''cv.TM_SQDIFF'' = Inr ob)
   \<and> (\<exists>k. PyInt 0 = PyInt k \<and> - 3 \<le> k \<and> k < 3)"
proof -
  have a: "get_axis_index shape_ops [2, 5, 5] (axis_or PyNone ''delay'') = Inr 0"
    "get_axis_index shape_ops [2, 5, 5] (axis_or (PyStr ''delay'') ''delay'') = Inr 0"
    by (simp_all add: shape_ops_def axis_or_def label_index_def)
  have k: "\<exists>k. PyInt 0 = PyInt k \<and> - 3 \<le> k \<and> k < 3"
    using drift_init_stack_axis[of "surface_env [[1, 1, 1], [1, 2, 1], [1, 1, 1]]" shape_ops
        "Some [2, 5, 5]" None "PyInt 0" PyNone PyNone False "''cv.TM_SQDIFF''"] drift_example
    by blast
  from a k drift_none drift_label drift_example show ?thesis by simp
qed

section \<open>Claim C8: what the matching functions write\<close>












end
